theory Spec2Isabelle
  imports Complex_Main "HOL-Library.Word"
begin

section \<open>Variable-precision decimal numbers (decimal.h, decimal.cc)\<close>

text \<open>
  A decimal object is a type tag (\<open>ID_decimal\<close> or \<open>ID_neg_decimal\<close>), a signed
  power-of-ten exponent and a sequence of base-1000 digits ("kigits"), the most
  significant first. The 10-bit packing of the kigits into bytes is not modelled: the
  mantissa is the list of the values that \<open>kigit(base, i)\<close> reads, so every stored kigit
  is below 1024. The C \<open>int\<close> exponent is an unbounded \<open>int\<close> here, and \<open>kint\<close>
  (\<open>uint16_t\<close>), \<open>uint\<close> and \<open>size_t\<close> temporaries are \<open>nat\<close>: with kigits below 1024
  none of the sums and products below reaches \<open>2 ^ 16\<close>.
\<close>

datatype type_id = ID_decimal | ID_neg_decimal

record decimal =
  type_of :: type_id
  exponent :: int
  kigits :: "nat list"

definition nkigits :: "decimal \<Rightarrow> nat" where
  "nkigits d = length (kigits d)"

text \<open>\<open>kigit(base, index)\<close>: the source only reads below the kigit count.\<close>

definition kigit :: "nat list \<Rightarrow> nat \<Rightarrow> nat" where
  "kigit base index = base ! index"

subsection \<open>The number a decimal stands for\<close>

text \<open>
  The mantissa \<open>m\<^sub>0 m\<^sub>1 \<dots>\<close> stands for \<open>\<Sum> m\<^sub>i / 1000 ^ (i + 1)\<close>, and the value is
  the mantissa times \<open>10 ^ exponent\<close>, negated under the tag \<open>ID_neg_decimal\<close>.
\<close>

fun kigits_nat :: "nat list \<Rightarrow> nat" where
  "kigits_nat [] = 0"
| "kigits_nat (k # ks) = k * 1000 ^ length ks + kigits_nat ks"

definition pow10 :: "int \<Rightarrow> rat" where
  "pow10 e = (if 0 \<le> e then 10 ^ nat e else 1 / 10 ^ nat (- e))"

definition magnitude :: "decimal \<Rightarrow> rat" where
  "magnitude d = of_nat (kigits_nat (kigits d)) * pow10 (exponent d - 3 * int (nkigits d))"

definition value_of :: "decimal \<Rightarrow> rat" where
  "value_of d = (if type_of d = ID_neg_decimal then - magnitude d else magnitude d)"

text \<open>Invariant 6 of the data model: leading kigit in 100..999, trailing kigit nonzero.\<close>

definition normalized :: "decimal \<Rightarrow> bool" where
  "normalized d =
     (kigits d = [] \<or>
      (100 \<le> hd (kigits d) \<and> hd (kigits d) \<le> 999 \<and> last (kigits d) \<noteq> 0))"

subsection \<open>The runtime and the settings, as far as the decimal code uses them\<close>

text \<open>
  \<open>runtime.h\<close> and \<open>settings.h\<close> are not part of the sources at hand, so what the
  decimal code asks of them is a parameter: how many bytes \<open>rt.allocate\<close> can still
  grant in the scratchpad, whether \<open>rt.make\<close> finds room for the finished object, and
  the settings the code reads.
\<close>

record runtime =
  scratch_room :: nat
  make_room :: bool

record settings =
  Precision :: nat
  TooManyDigitsErrors :: bool
  ExponentSeparator :: string

definition sizeof_kint :: nat where
  "sizeof_kint = 2"

text \<open>\<open>rt.make<decimal>(type, exp, nkigs, kigs)\<close>: the constructor copies the first
  \<open>nkigs\<close> kigits as they are; a null result is \<open>None\<close>.\<close>

definition make_decimal :: "runtime \<Rightarrow> type_id \<Rightarrow> int \<Rightarrow> nat \<Rightarrow> nat list \<Rightarrow> decimal option" where
  "make_decimal rt ty e nkigs kigs =
     (if make_room rt
      then Some \<lparr> type_of = ty, exponent = e, kigits = take nkigs kigs \<rparr>
      else None)"

subsection \<open>Tests and comparison\<close>

datatype class_type =
  negativeNormal | negativeSubnormal | negativeZero
| positiveZero | positiveSubnormal | positiveNormal
| negativeInfinity | positiveInfinity

text \<open>The enumerator \<open>infinity\<close> of \<open>class_type\<close> is 1005.\<close>

definition infinity :: nat where
  "infinity = 1005"

definition fpclass :: "decimal \<Rightarrow> class_type" where
  "fpclass x =
     (let neg = (type_of x = ID_neg_decimal) in
      if nkigits x = 0 then (if neg then negativeZero else positiveZero)
      else let d = kigit (kigits x) 0 in
        if d \<ge> 1000 \<and> d = infinity then (if neg then negativeInfinity else positiveInfinity)
        else if d < 100 then (if neg then negativeSubnormal else positiveSubnormal)
        else (if neg then negativeNormal else positiveNormal))"

definition is_zero :: "decimal \<Rightarrow> bool" where
  "is_zero x = (nkigits x = 0)"

definition is_negative :: "decimal \<Rightarrow> bool" where
  "is_negative x = (if type_of x = ID_decimal then False else nkigits x \<noteq> 0)"

text \<open>The loop of \<open>compare\<close> over the first \<open>s\<close> kigits, from index \<open>i\<close> upwards:
  the first nonzero difference, or 0.\<close>

function compare_kigits :: "nat list \<Rightarrow> nat list \<Rightarrow> nat \<Rightarrow> nat \<Rightarrow> int" where
  "compare_kigits xb yb s i =
     (if i < s
      then (let diff = int (kigit xb i) - int (kigit yb i) in
            if diff \<noteq> 0 then diff else compare_kigits xb yb s (i + 1))
      else 0)"
  by pat_completeness auto
termination
  by (relation "measure (\<lambda>(xb, yb, s, i). s - i)") auto

declare compare_kigits.simps [simp del]

text \<open>
  \<open>decimal::compare(x, y)\<close>. A null pointer is \<open>None\<close>. The first test of the source,
  pointer identity, returns 0; two identical pointers are two nulls or the same object,
  and for the same object the rest of the function returns 0 as well
  (lemma \<open>decimal_compare_same\<close>).
\<close>

definition decimal_compare :: "decimal option \<Rightarrow> decimal option \<Rightarrow> int" where
  "decimal_compare x y =
     (case (x, y) of
        (None, None) \<Rightarrow> 0
      | (None, Some _) \<Rightarrow> 0 - 1
      | (Some _, None) \<Rightarrow> 1 - 0
      | (Some x, Some y) \<Rightarrow>
          let xty = type_of x; yty = type_of y in
          if xty \<noteq> yty
          then (if xty = ID_decimal then 1 else 0) - (if yty = ID_decimal then 1 else 0)
          else
            let sign = (if xty = ID_neg_decimal then - 1 else 1);
                xe = exponent x; ye = exponent y in
            if xe \<noteq> ye then sign * (xe - ye)
            else
              let xs = nkigits x; ys = nkigits y;
                  s = min xs ys;
                  diff = compare_kigits (kigits x) (kigits y) s 0 in
              if diff \<noteq> 0 then sign * diff
              else if xs \<noteq> ys then sign * (int xs - int ys)
              else 0)"

text \<open>\<open>operator==\<close> and \<open>operator<\<close> of decimal.h.\<close>

definition decimal_eq :: "decimal option \<Rightarrow> decimal option \<Rightarrow> bool" where
  "decimal_eq x y = (decimal_compare x y = 0)"

definition decimal_less :: "decimal option \<Rightarrow> decimal option \<Rightarrow> bool" where
  "decimal_less x y = (decimal_compare x y < 0)"


subsection \<open>Addition\<close>

definition negtype :: "type_id \<Rightarrow> type_id" where
  "negtype ty = (if ty = ID_decimal then ID_neg_decimal else ID_decimal)"

text \<open>\<open>decimal::neg\<close> copies the payload under the opposite tag.\<close>

definition decimal_neg :: "runtime \<Rightarrow> decimal \<Rightarrow> decimal option" where
  "decimal_neg rt x =
     (if make_room rt then Some (x \<lparr> type_of := negtype (type_of x) \<rparr>) else None)"

text \<open>\<open>rt.allocate(n)\<close> returns null when the scratchpad cannot grant \<open>n\<close> bytes.\<close>

definition allocate :: "runtime \<Rightarrow> nat \<Rightarrow> bool" where
  "allocate rt n = (n \<le> scratch_room rt)"

text \<open>
  The addition loop \<open>while (ko-- > 0)\<close>: the argument \<open>Suc ko\<close> is the value of \<open>ko\<close>
  that the loop test sees, \<open>ko\<close> the index the body works on. \<open>add_kigit\<close> is the body
  up to \<open>xk += carry\<close>; the loop returns the mantissa and the carry out of kigit 0.
\<close>

definition add_kigit ::
  "nat list \<Rightarrow> nat \<Rightarrow> nat list \<Rightarrow> nat \<Rightarrow> nat \<Rightarrow> nat \<Rightarrow> nat \<Rightarrow> nat \<Rightarrow> nat \<Rightarrow> nat \<Rightarrow> nat" where
  "add_kigit xb xs yb ys kshift mod3 hmul lmul ko carry =
     (let xk = (if ko < xs then kigit xb ko else 0);
          xk = (if ko \<ge> kshift
                then (let yo = ko - kshift;
                          yk = (if yo < ys then kigit yb yo else 0);
                          xk = xk + yk div hmul
                      in if mod3 \<noteq> 0 \<and> ko > kshift \<and> yo - 1 < ys
                         then xk + (kigit yb (yo - 1) mod hmul) * lmul
                         else xk)
                else xk)
      in xk + carry)"

fun add_loop ::
  "nat list \<Rightarrow> nat \<Rightarrow> nat list \<Rightarrow> nat \<Rightarrow> nat \<Rightarrow> nat \<Rightarrow> nat \<Rightarrow> nat \<Rightarrow> nat \<Rightarrow> nat \<Rightarrow> nat list
     \<Rightarrow> nat list \<times> nat" where
  "add_loop xb xs yb ys kshift mod3 hmul lmul 0 carry rb = (rb, carry)"
| "add_loop xb xs yb ys kshift mod3 hmul lmul (Suc ko) carry rb =
     (let xk = add_kigit xb xs yb ys kshift mod3 hmul lmul ko carry
      in add_loop xb xs yb ys kshift mod3 hmul lmul ko (xk div 1000) (rb[ko := xk mod 1000]))"

text \<open>
  \<open>while (carry >= hmul) { hmul *= 10; expincr++; }\<close>, entered with \<open>hmul = 10\<close>. The
  conjunct \<open>0 < hmul\<close> is not in the source: \<open>hmul\<close> is a positive power of ten there,
  and the conjunct only makes the recursion well-founded for every argument.
\<close>

function carry_digits :: "nat \<Rightarrow> nat \<Rightarrow> nat \<Rightarrow> nat \<times> nat" where
  "carry_digits carry hmul expincr =
     (if carry \<ge> hmul \<and> 0 < hmul
      then carry_digits carry (hmul * 10) (expincr + 1)
      else (hmul, expincr))"
  by pat_completeness auto
termination
  by (relation "measure (\<lambda>(carry, hmul, expincr). Suc carry - hmul)") auto

declare carry_digits.simps [simp del]

text \<open>The loop that shifts the mantissa right by the digits of the carry.\<close>

fun add_shift :: "nat \<Rightarrow> nat \<Rightarrow> nat \<Rightarrow> nat \<Rightarrow> nat list \<Rightarrow> nat list" where
  "add_shift hmul lmul carry 0 rb = rb"
| "add_shift hmul lmul carry (Suc ko) rb =
     (let above = (if ko \<noteq> 0 then rb ! (ko - 1) else carry)
      in add_shift hmul lmul carry ko (rb[ko := rb ! ko div hmul + (above mod hmul) * lmul]))"

text \<open>\<open>while (rs && rb[rs-1] == 0) rs--;\<close>\<close>

fun strip_trailing :: "nat list \<Rightarrow> nat \<Rightarrow> nat" where
  "strip_trailing rb 0 = 0"
| "strip_trailing rb (Suc rs) = (if rb ! rs = 0 then strip_trailing rb rs else Suc rs)"

text \<open>
  \<open>decimal::add(x, y)\<close>, "addition of two numbers with the same sign". The buffer that
  \<open>rt.allocate\<close> returns is written at every index before it is read, so it starts
  here as \<open>rs\<close> zeros.
\<close>

definition decimal_add :: "settings \<Rightarrow> runtime \<Rightarrow> decimal \<Rightarrow> decimal \<Rightarrow> decimal option" where
  "decimal_add st rt x y =
     (let ty = type_of x;
          lt = (exponent x < exponent y);
          xi = (if lt then y else x);
          yi = (if lt then x else y);
          xe = exponent xi; ye = exponent yi;
          xs = nkigits xi; ys = nkigits yi;
          xb = kigits xi; yb = kigits yi;
          yshift = nat (xe - ye);
          kshift = yshift div 3;
          mod3 = yshift mod 3;
          ps = (Precision st + 2) div 3;
          rs = min ps (max xs (ys + (yshift + 2) div 3))
      in if rs < kshift then Some (if lt then y else x)
         else if \<not> allocate rt (rs * sizeof_kint) then None
         else
           let hmul = (if mod3 = 2 then 100 else if mod3 = 1 then 10 else 1);
               lmul = 1000 div hmul;
               (rb, carry) = add_loop xb xs yb ys kshift mod3 hmul lmul rs 0 (replicate rs 0);
               (xe, rb) =
                  (if carry \<noteq> 0
                   then (let (hmul, expincr) = carry_digits carry 10 1;
                             lmul = 1000 div hmul
                         in (xe + int expincr, add_shift hmul lmul carry rs rb))
                   else (xe, rb));
               rs = strip_trailing rb rs
           in make_decimal rt ty xe rs rb)"

subsection \<open>Subtraction\<close>

text \<open>Subtraction of \<open>kint\<close> values wraps at 16 bits.\<close>

definition kint_sub :: "nat \<Rightarrow> nat \<Rightarrow> nat" where
  "kint_sub a b = (a + 65536 - b mod 65536) mod 65536"

text \<open>
  The subtraction loop. \<open>sub_kigit\<close> is the body up to the borrow: the kigit \<open>xk\<close> of
  \<open>x\<close> and the amount \<open>yk\<close> to take from it. The carry is the borrow, 0 or 1.
\<close>

definition sub_kigit ::
  "nat list \<Rightarrow> nat \<Rightarrow> nat list \<Rightarrow> nat \<Rightarrow> nat \<Rightarrow> nat \<Rightarrow> nat \<Rightarrow> nat \<Rightarrow> nat \<Rightarrow> nat \<Rightarrow> nat \<times> nat" where
  "sub_kigit xb xs yb ys kshift mod3 hmul lmul ko carry =
     (let xk = (if ko < xs then kigit xb ko else 0);
          yk = carry;
          yk = (if ko \<ge> kshift
                then (let yo = ko - kshift
                      in if yo < ys
                         then (let yk = yk + kigit yb yo div hmul
                               in if mod3 \<noteq> 0 \<and> ko > kshift \<and> yo - 1 < ys
                                  then yk + kigit yb (yo - 1) mod hmul * lmul
                                  else yk)
                         else yk)
                else yk)
      in (xk, yk))"

fun sub_loop ::
  "nat list \<Rightarrow> nat \<Rightarrow> nat list \<Rightarrow> nat \<Rightarrow> nat \<Rightarrow> nat \<Rightarrow> nat \<Rightarrow> nat \<Rightarrow> nat \<Rightarrow> nat \<Rightarrow> nat list
     \<Rightarrow> nat list \<times> nat" where
  "sub_loop xb xs yb ys kshift mod3 hmul lmul 0 carry rb = (rb, carry)"
| "sub_loop xb xs yb ys kshift mod3 hmul lmul (Suc ko) carry rb =
     (let (xk, yk) = sub_kigit xb xs yb ys kshift mod3 hmul lmul ko carry;
          carry = (if xk < yk then 1 else 0);
          xk = (if carry \<noteq> 0 then xk + 1000 else xk);
          xk = kint_sub xk yk
      in sub_loop xb xs yb ys kshift mod3 hmul lmul ko carry (rb[ko := xk]))"

text \<open>The complement loop: \<open>rev\<close> (here \<open>rv\<close>) is 1000 for the last kigit and 999 above it.\<close>

fun complement_loop :: "nat \<Rightarrow> nat \<Rightarrow> nat list \<Rightarrow> nat list" where
  "complement_loop rv 0 rb = rb"
| "complement_loop rv (Suc ko) rb = complement_loop 999 ko (rb[ko := kint_sub rv (rb ! ko)])"

text \<open>\<open>while (rs && *rb == 0) { xe -= 3; rb++; rs--; }\<close>: advancing the pointer drops
  the head of the list.\<close>

fun strip_leading :: "int \<Rightarrow> nat list \<Rightarrow> nat \<Rightarrow> int \<times> nat list \<times> nat" where
  "strip_leading xe rb 0 = (xe, rb, 0)"
| "strip_leading xe rb (Suc rs) =
     (if kigit rb 0 = 0 then strip_leading (xe - 3) (tl rb) rs else (xe, rb, Suc rs))"

text \<open>The loop that shifts the mantissa left by one or two decimal digits.\<close>

function digits_loop :: "nat \<Rightarrow> nat \<Rightarrow> nat \<Rightarrow> nat \<Rightarrow> nat list \<Rightarrow> nat list" where
  "digits_loop hmul lmul rs ko rb =
     (if ko < rs
      then (let next = (if ko + 1 < rs then rb ! (ko + 1) else 0)
            in digits_loop hmul lmul rs (ko + 1)
                 (rb[ko := (rb ! ko * hmul + next div lmul) mod 1000]))
      else rb)"
  by pat_completeness auto
termination
  by (relation "measure (\<lambda>(hmul, lmul, rs, ko, rb). rs - ko)") auto

declare digits_loop.simps [simp del]

text \<open>
  \<open>decimal::sub(x, y)\<close>, "subtraction of two numbers with the same sign". The last
  statement of the digit-stripping block, \<open>xe -= 1 + *rb < 10\<close>, parses as
  \<open>xe -= ((1 + *rb) < 10)\<close>.
\<close>

definition decimal_sub :: "settings \<Rightarrow> runtime \<Rightarrow> decimal \<Rightarrow> decimal \<Rightarrow> decimal option" where
  "decimal_sub st rt x y =
     (let ty = type_of x;
          lt = (exponent x < exponent y);
          xi = (if lt then y else x);
          yi = (if lt then x else y);
          xe = exponent xi; ye = exponent yi;
          xs = nkigits xi; ys = nkigits yi;
          xb = kigits xi; yb = kigits yi;
          yshift = nat (xe - ye);
          kshift = yshift div 3;
          mod3 = yshift mod 3;
          ps = (Precision st + 2) div 3;
          rs = min ps (max xs (ys + (yshift + 2) div 3))
      in if rs < kshift then (if lt then decimal_neg rt y else Some x)
         else if \<not> allocate rt (rs * sizeof_kint) then None
         else
           let hmul = (if mod3 = 2 then 100 else if mod3 = 1 then 10 else 1);
               lmul = 1000 div hmul;
               (rb, carry) = sub_loop xb xs yb ys kshift mod3 hmul lmul rs 0 (replicate rs 0);
               (rb, lt) = (if carry \<noteq> 0 then (complement_loop 1000 rs rb, \<not> lt) else (rb, lt));
               (xe, rb, rs) = strip_leading xe rb rs;
               (xe, rb) =
                  (if rs \<noteq> 0 \<and> kigit rb 0 < 100
                   then (let xe = xe - (1 + (if kigit rb 0 < 10 then 1 else 0));
                             hmul = (if kigit rb 0 < 10 then 100 else 10);
                             lmul = 1000 div hmul;
                             rb = digits_loop hmul lmul rs 0 rb;
                             xe = xe - (if 1 + kigit rb 0 < 10 then 1 else 0)
                         in (xe, rb))
                   else (xe, rb));
               xe = (if rs = 0 then 0 else xe);
               ty = (if lt then negtype ty else ty);
               rs = strip_trailing rb rs
           in make_decimal rt ty xe rs rb)"

subsection \<open>Multiplication\<close>

text \<open>
  The innermost loop of \<open>decimal::mul\<close>: add \<open>rk\<close> into kigit \<open>ri\<close> and carry into
  the kigits above it (lower indices); what is left after kigit 0 is returned.
\<close>

fun propagate :: "nat list \<Rightarrow> nat \<Rightarrow> nat \<Rightarrow> nat list \<times> nat" where
  "propagate rb rk 0 =
     (if rk \<noteq> 0
      then (let rk = rk + rb ! 0 in (rb[0 := rk mod 1000], rk div 1000))
      else (rb, rk))"
| "propagate rb rk (Suc ri) =
     (if rk \<noteq> 0
      then (let rk = rk + rb ! Suc ri in propagate (rb[Suc ri := rk mod 1000]) (rk div 1000) ri)
      else (rb, rk))"

function mul_inner ::
  "nat \<Rightarrow> nat \<Rightarrow> nat list \<Rightarrow> nat \<Rightarrow> nat \<Rightarrow> nat \<Rightarrow> nat list \<Rightarrow> nat \<Rightarrow> nat list \<times> nat" where
  "mul_inner xk xi yb ys rs yi rb carry =
     (if yi < ys
      then (let ri = xi + yi
            in if ri \<ge> rs then (rb, carry)
               else (let yk = kigit yb yi;
                         (rb, rk) = propagate rb (xk * yk) ri
                     in mul_inner xk xi yb ys rs (yi + 1) rb (carry + rk)))
      else (rb, carry))"
  by pat_completeness auto
termination
  by (relation "measure (\<lambda>(xk, xi, yb, ys, rs, yi, rb, carry). ys - yi)") auto

declare mul_inner.simps [simp del]

function mul_outer ::
  "nat list \<Rightarrow> nat \<Rightarrow> nat list \<Rightarrow> nat \<Rightarrow> nat \<Rightarrow> nat \<Rightarrow> nat list \<Rightarrow> nat \<Rightarrow> nat list \<times> nat" where
  "mul_outer xb xs yb ys rs xi rb carry =
     (if xi < xs
      then (let xk = kigit xb xi;
                (rb, carry) = mul_inner xk xi yb ys rs 0 rb carry
            in mul_outer xb xs yb ys rs (xi + 1) rb carry)
      else (rb, carry))"
  by pat_completeness auto
termination
  by (relation "measure (\<lambda>(xb, xs, yb, ys, rs, xi, rb, carry). xs - xi)") auto

declare mul_outer.simps [simp del]

text \<open>"Round things up": \<open>while (overflow && ri --> 0)\<close>, entered with \<open>ri = rs - 1\<close>.\<close>

fun round_up :: "bool \<Rightarrow> nat \<Rightarrow> nat list \<Rightarrow> bool \<times> nat list" where
  "round_up overflow 0 rb = (overflow, rb)"
| "round_up overflow (Suc ri) rb =
     (if overflow
      then (let v = rb ! ri + 1
            in if v \<ge> 1000 then round_up True ri (rb[ri := v mod 1000])
               else round_up False ri (rb[ri := v]))
      else (overflow, rb))"

text \<open>\<open>while (carry)\<close>: round, move the mantissa one kigit down, put the carry on top.\<close>

function carry_loop :: "nat \<Rightarrow> nat \<Rightarrow> int \<Rightarrow> nat list \<Rightarrow> int \<times> nat list" where
  "carry_loop rs carry re rb =
     (if carry \<noteq> 0
      then (let ri = rs - 1;
                (overflow, rb) = round_up (rb ! ri \<ge> 500) ri rb;
                carry = (if overflow then carry + 1 else carry);
                rb = (carry mod 1000) # take (rs - 1) rb
            in carry_loop rs (carry div 1000) (re + 3) rb)
      else (re, rb))"
  by pat_completeness auto
termination
  by (relation "measure (\<lambda>(rs, carry, re, rb). carry)") auto

declare carry_loop.simps [simp del]

text \<open>\<open>decimal::mul(x, y)\<close>.\<close>

definition decimal_mul :: "settings \<Rightarrow> runtime \<Rightarrow> decimal \<Rightarrow> decimal \<Rightarrow> decimal option" where
  "decimal_mul st rt x y =
     (let xe = exponent x; ye = exponent y;
          xty = type_of x; yty = type_of y;
          ty = (if xty = yty then ID_decimal else ID_neg_decimal);
          xs = nkigits x; ys = nkigits y;
          xb = kigits x; yb = kigits y;
          re = xe + ye - 3;
          ps = (Precision st + 2) div 3;
          rs = min ps (xs + ys + 1)
      in if \<not> allocate rt (rs * sizeof_kint) then None
         else
           let rb = replicate rs 0;
               (rb, carry) = mul_outer xb xs yb ys rs 0 rb 0;
               (re, rb) = carry_loop rs carry re rb;
               (re, rb, rs) = strip_leading re rb rs;
               (re, rb) =
                  (if rs \<noteq> 0 \<and> kigit rb 0 < 100
                   then (let re = re - (1 + (if kigit rb 0 < 10 then 1 else 0));
                             hmul = (if kigit rb 0 < 10 then 100 else 10);
                             lmul = 1000 div hmul
                         in (re, digits_loop hmul lmul rs 0 rb))
                   else (re, rb));
               rs = strip_trailing rb rs
           in make_decimal rt ty re rs rb)"


subsection \<open>Conversion to machine integers\<close>

text \<open>\<open>ularge\<close> and \<open>large\<close> are the 64-bit unsigned and signed integers; a \<open>large\<close> is
  a word read with \<open>sint\<close>.\<close>

type_synonym ularge = "64 word"

text \<open>
  The power loop of \<open>as_unsigned\<close>: \<open>pow\<close> becomes \<open>10 ^ xp\<close>, computed in 64 bits by
  repeated squaring. \<open>xp\<close> is the non-negative exponent.
\<close>

function pow_loop :: "nat \<Rightarrow> ularge \<Rightarrow> ularge \<Rightarrow> ularge" where
  "pow_loop xp pow mul =
     (if xp \<noteq> 0
      then pow_loop (xp div 2) (if odd xp then pow * mul else pow) (mul * mul)
      else pow)"
  by pat_completeness auto
termination
  by (relation "measure (\<lambda>(xp, pow, mul). xp)") auto

declare pow_loop.simps [simp del]

text \<open>The summation loop; \<open>~0ULL\<close> is the word \<open>- 1\<close>.\<close>

function sum_loop :: "nat list \<Rightarrow> nat \<Rightarrow> nat \<Rightarrow> ularge \<Rightarrow> ularge \<Rightarrow> ularge" where
  "sum_loop bp nk m pow result =
     (if m < nk \<and> pow \<noteq> 0
      then (let d = kigit bp m;
                next = result + of_nat d * pow div 1000
            in if next < result then - 1
               else sum_loop bp nk (m + 1) (pow div 1000) next)
      else result)"
  by pat_completeness auto
termination
  by (relation "measure (\<lambda>(bp, nk, m, pow, result). nk - m)") auto

declare sum_loop.simps [simp del]

definition as_unsigned :: "bool \<Rightarrow> decimal \<Rightarrow> ularge" where
  "as_unsigned magn x =
     (let e = exponent x in
      if e < 0 \<or> (\<not> magn \<and> type_of x = ID_neg_decimal) then 0
      else
        let pow = pow_loop (nat e) 1 10 in
        if pow = 0 then - 1
        else sum_loop (kigits x) (nkigits x) 0 pow 0)"

definition as_integer :: "decimal \<Rightarrow> ularge" where
  "as_integer x =
     (let result = as_unsigned True x
      in if type_of x = ID_neg_decimal then - result else result)"


section \<open>Parsing a decimal number (\<open>PARSE_BODY(decimal)\<close>)\<close>

datatype result = OK | SKIP | ERROR | WARN

text \<open>
  The parser context: the text \<open>source\<close>, the number of bytes \<open>p.length\<close> that may be
  consumed, the precedence level, and the two outputs \<open>p.end\<close> and \<open>p.out\<close>. The text
  is a C string: reading at or after its end gives the terminating NUL.
\<close>

record parser =
  source :: string
  length_p :: nat
  precedence :: int
  end_p :: nat
  out :: "decimal option"

definition peek :: "string \<Rightarrow> nat \<Rightarrow> char" where
  "peek src i = (if i < length src then src ! i else CHR 0x00)"

definition is_digit :: "char \<Rightarrow> bool" where
  "is_digit c = (48 \<le> (of_char c :: nat) \<and> (of_char c :: nat) \<le> 57)"

definition digit_value :: "char \<Rightarrow> nat" where
  "digit_value c = of_char c - 48"

text \<open>
  Modelled from the spec: \<open>utf8_next\<close> and \<open>utf8_codepoint\<close> of utf8.h are not part of
  the sources at hand. Following "the standard UTF-8 decoding rule set (1--4 bytes,
  high-bit-prefix dispatched)", a character is as long as its first byte says, and the
  code point at a position is the exponent separator when the bytes of that character
  are the UTF-8 bytes of the separator (the setting holds them).
\<close>

definition utf8_size :: "char \<Rightarrow> nat" where
  "utf8_size c =
     (let b = (of_char c :: nat) in
      if b < 128 then 1 else if b < 192 then 1 else if b < 224 then 2
      else if b < 240 then 3 else if b < 248 then 4 else 1)"

definition utf8_next :: "string \<Rightarrow> nat \<Rightarrow> nat" where
  "utf8_next src s = s + utf8_size (peek src s)"

definition at_separator :: "settings \<Rightarrow> string \<Rightarrow> nat \<Rightarrow> bool" where
  "at_separator st src s =
     (ExponentSeparator st \<noteq> [] \<and>
      take (utf8_size (peek src s)) (drop s src) = ExponentSeparator st)"

text \<open>C's \<open>atoi\<close> on the text from position \<open>i\<close>: an optional sign and the digits after
  it. (It is only called on a sign or a digit, so it skips no white space here.)\<close>

function atoi_digits :: "string \<Rightarrow> nat \<Rightarrow> int \<Rightarrow> int" where
  "atoi_digits src i acc =
     (if i < length src \<and> is_digit (src ! i)
      then atoi_digits src (i + 1) (acc * 10 + int (digit_value (src ! i)))
      else acc)"
  by pat_completeness auto
termination
  by (relation "measure (\<lambda>(src, i, acc). length src - i)") auto

declare atoi_digits.simps [simp del]

definition atoi :: "string \<Rightarrow> nat \<Rightarrow> int" where
  "atoi src i =
     (if peek src i = CHR ''-'' then - atoi_digits src (i + 1) 0
      else if peek src i = CHR ''+'' then atoi_digits src (i + 1) 0
      else atoi_digits src i 0)"

text \<open>The variables of the digit-scanning loop; \<open>scratch\<close> holds the kigits allocated in
  the scratchpad so far.\<close>

record scan =
  pos :: nat
  cur_kigit :: nat
  kigc :: nat
  scan_exponent :: int
  decimalDot :: int
  digits :: nat
  zeroes :: bool
  scratch :: "nat list"

text \<open>Allocating one more \<open>kint\<close> in the scratchpad that already holds \<open>scr\<close>.\<close>

definition allocate_kint :: "runtime \<Rightarrow> nat list \<Rightarrow> bool" where
  "allocate_kint rt scr = allocate rt (length scr * sizeof_kint + sizeof_kint)"

text \<open>One round of \<open>while (+s < +last)\<close> on the character \<open>c\<close>: \<open>None\<close> when the
  allocation of a kigit fails (the parser returns \<open>ERROR\<close>), otherwise whether the loop
  goes on, and the variables.\<close>

definition scan_char :: "runtime \<Rightarrow> char \<Rightarrow> scan \<Rightarrow> (bool \<times> scan) option" where
  "scan_char rt c sc =
     (if is_digit c
      then (let sc = sc \<lparr> digits := digits sc + 1 \<rparr> in
            if \<not> zeroes sc \<or> c \<noteq> CHR ''0''
            then (let sc = (if decimalDot sc < 0
                            then sc \<lparr> scan_exponent := scan_exponent sc + 1 \<rparr> else sc);
                      sc = sc \<lparr> cur_kigit := cur_kigit sc * 10 + digit_value c \<rparr>;
                      sc = sc \<lparr> kigc := kigc sc + 1 \<rparr>
                  in if kigc sc = 3
                     then (if \<not> allocate_kint rt (scratch sc) then None
                           else Some (True, sc \<lparr> scratch := scratch sc @ [cur_kigit sc],
                                                  kigc := 0, cur_kigit := 0, zeroes := False,
                                                  pos := pos sc + 1 \<rparr>))
                     else Some (True, sc \<lparr> zeroes := False, pos := pos sc + 1 \<rparr>))
            else if decimalDot sc \<ge> 0
            then Some (True, sc \<lparr> scan_exponent := scan_exponent sc - 1, pos := pos sc + 1 \<rparr>)
            else Some (True, sc \<lparr> pos := pos sc + 1 \<rparr>))
      else if decimalDot sc < 0 \<and> (c = CHR ''.'' \<or> c = CHR '','')
      then Some (True, sc \<lparr> decimalDot := int (pos sc), pos := pos sc + 1 \<rparr>)
      else Some (False, sc))"

lemma scan_char_pos:
  "scan_char rt c sc = Some (True, sc') \<Longrightarrow> pos sc' = pos sc + 1"
  by (auto simp: scan_char_def Let_def split: if_splits)

function scan_loop :: "runtime \<Rightarrow> string \<Rightarrow> nat \<Rightarrow> scan \<Rightarrow> scan option" where
  "scan_loop rt src last_p sc =
     (if pos sc < last_p
      then (case scan_char rt (peek src (pos sc)) sc of
              None \<Rightarrow> None
            | Some (again, sc') \<Rightarrow> if again then scan_loop rt src last_p sc' else Some sc')
      else Some sc)"
  by pat_completeness auto
termination
  by (relation "measure (\<lambda>(rt, src, last_p, sc). last_p - pos sc)")
     (auto dest: scan_char_pos)

declare scan_loop.simps [simp del]

text \<open>\<open>while (+s < +last && (*s >= '0' && *s <= '9')) ++s;\<close>\<close>

function skip_digits :: "string \<Rightarrow> nat \<Rightarrow> nat \<Rightarrow> nat" where
  "skip_digits src last_p s =
     (if s < last_p \<and> is_digit (peek src s) then skip_digits src last_p (s + 1) else s)"
  by pat_completeness auto
termination
  by (relation "measure (\<lambda>(src, last_p, s). last_p - s)") auto

declare skip_digits.simps [simp del]

text \<open>
  The parser after the digit-scanning loop, from \<open>if (!digits) return SKIP;\<close> to the
  end: \<open>type\<close> is the tag chosen from the sign, \<open>sc\<close> the variables the loop left,
  \<open>last_p\<close> the source's \<open>last\<close>.
\<close>

definition parse_finish ::
  "settings \<Rightarrow> runtime \<Rightarrow> parser \<Rightarrow> type_id \<Rightarrow> scan \<Rightarrow> result \<times> parser" where
  "parse_finish st rt p type sc =
     (let src = source p; last_p = length_p p in
      if digits sc = 0 then (SKIP, p)
      else if kigc sc \<noteq> 0 \<and> \<not> allocate_kint rt (scratch sc) then (ERROR, p)
      else
        let scr = (if kigc sc \<noteq> 0
                   then scratch sc @ [cur_kigit sc * 10 ^ (3 - kigc sc)]
                   else scratch sc);
            maxdigits = Precision st
        in if TooManyDigitsErrors st \<and> digits sc > maxdigits then (ERROR, p)
           else
             let s = pos sc;
                 has_exp = (peek src s = CHR ''e'' \<or> peek src s = CHR ''E''
                            \<or> at_separator st src s);
                 expsrc = utf8_next src s;
                 expstart = (if peek src expsrc = CHR ''+'' \<or> peek src expsrc = CHR ''-''
                             then expsrc + 1 else expsrc);
                 s' = skip_digits src last_p expstart
             in if has_exp \<and> s' = expstart then (ERROR, p)
                else
                  let e = (if has_exp then scan_exponent sc + atoi src expsrc
                           else scan_exponent sc);
                      s = (if has_exp then s' else s);
                      nkigs = length scr;
                      obj = make_decimal rt type e nkigs scr
                  in case obj of
                       None \<Rightarrow> (ERROR, p \<lparr> end_p := s, out := None \<rparr>)
                     | Some d \<Rightarrow> (OK, p \<lparr> end_p := s, out := Some d \<rparr>))"

text \<open>The parser proper: the sign, the loop, and the rest.\<close>

definition decimal_parse :: "settings \<Rightarrow> runtime \<Rightarrow> parser \<Rightarrow> result \<times> parser" where
  "decimal_parse st rt p =
     (let src = source p;
          last_p = length_p p;
          c0 = peek src 0;
          sign = (c0 = CHR ''+'' \<or> c0 = CHR ''-'')
      in if sign \<and> precedence p < 0 then (SKIP, p)
         else
           let type = (if sign \<and> c0 = CHR ''-'' then ID_neg_decimal else ID_decimal);
               s = (if sign then 1 else 0)
           in case scan_loop rt src last_p
                     \<lparr> pos = s, cur_kigit = 0, kigc = 0, scan_exponent = 0, decimalDot = - 1,
                       digits = 0, zeroes = True, scratch = [] \<rparr> of
                None \<Rightarrow> (ERROR, p)
              | Some sc \<Rightarrow> parse_finish st rt p type sc)"


section \<open>Loops (loops.cc)\<close>

text \<open>
  The evaluator state as far as the loops use it: the value stack (top first), the
  local-variable slots of the innermost frame, the error slot, and the flag that
  \<open>interrupted()\<close> reads. The flag is set by the host while the program runs; here an
  evaluation of a body or of a condition may leave it set.
\<close>

datatype error = Type_error

record 'o machine =
  stack :: "'o list"
  locals_frame :: "'o list"
  last_error :: "error option"
  interrupt :: bool

definition interrupted :: "'o machine \<Rightarrow> bool" where
  "interrupted s = interrupt s"

text \<open>
  Modelled from the spec: runtime.h is not part of the sources at hand. \<open>rt.pop()\<close>
  takes the top of the value stack or returns null on an empty stack; \<open>rt.local(i, v)\<close>
  writes slot \<open>i\<close> of the innermost frame; \<open>rt.type_error()\<close> records the error.
\<close>

definition rt_pop :: "'o machine \<Rightarrow> 'o option \<times> 'o machine" where
  "rt_pop s = (case stack s of [] \<Rightarrow> (None, s) | x # xs \<Rightarrow> (Some x, s \<lparr> stack := xs \<rparr>))"

definition rt_local :: "nat \<Rightarrow> 'o \<Rightarrow> 'o machine \<Rightarrow> 'o machine" where
  "rt_local i v s = s \<lparr> locals_frame := (locals_frame s)[i := v] \<rparr>"

definition rt_type_error :: "'o machine \<Rightarrow> 'o machine" where
  "rt_type_error s = s \<lparr> last_error := Some Type_error \<rparr>"

text \<open>
  What the loops ask of the object types (object.h, integer.h, algebraic.h and
  arithmetic.h, of which only object.h is at hand), as parameters:
  \<open>integer_value x\<close> is the \<open>ularge\<close> value of \<open>x\<close> when the type of \<open>x\<close> is exactly
  \<open>ID_integer\<close> (\<open>x->as<integer>()\<close> followed by \<open>value<ularge>()\<close>) and \<open>None\<close>
  otherwise; \<open>is_real\<close> is the type-range test; \<open>integer_make\<close> is \<open>integer::make\<close>,
  taken to return an object; \<open>alg_add\<close>, \<open>alg_less\<close> and \<open>alg_greater\<close> are the
  algebraic operators \<open>+\<close>, \<open><\<close> and \<open>>\<close>; \<open>as_truth\<close> returns 0 or 1, or -1 for an
  object that is no truth value.
\<close>

record 'o object_ops =
  integer_value :: "'o \<Rightarrow> ularge option"
  is_real :: "'o \<Rightarrow> bool"
  integer_make :: "ularge \<Rightarrow> 'o"
  alg_add :: "'o \<Rightarrow> 'o \<Rightarrow> 'o"
  alg_less :: "'o \<Rightarrow> 'o \<Rightarrow> 'o"
  alg_greater :: "'o \<Rightarrow> 'o \<Rightarrow> 'o"
  as_truth :: "'o \<Rightarrow> int"

text \<open>The evaluation of a program object: a status and the state it leaves.\<close>

type_synonym 'o evaluation = "'o machine \<Rightarrow> result \<times> 'o machine"

text \<open>\<open>conditional_loop::condition(bool &value)\<close>: the status, the truth value
  (\<open>false\<close> unless set) and the state.\<close>

definition condition :: "'o object_ops \<Rightarrow> 'o machine \<Rightarrow> result \<times> bool \<times> 'o machine" where
  "condition ops s =
     (case rt_pop s of
        (Some cond, s') \<Rightarrow>
          (let truth = as_truth ops cond
           in if truth \<ge> 0 then (OK, truth \<noteq> 0, s') else (ERROR, False, s'))
      | (None, s') \<Rightarrow> (ERROR, False, s'))"

text \<open>
  \<open>EVAL_BODY(DoUntil)\<close>. The loops may run forever, so they are partial functions:
  \<open>None\<close> stands for a loop that never returns. \<open>r\<close> is the status variable of the
  source, \<open>OK\<close> at the start.
\<close>

partial_function (option) DoUntil_loop ::
  "'o object_ops \<Rightarrow> 'o evaluation \<Rightarrow> 'o evaluation \<Rightarrow> result \<Rightarrow> 'o machine
     \<Rightarrow> (result \<times> 'o machine) option" where
  "DoUntil_loop ops body cond r s =
     (if \<not> interrupted s \<and> r = OK
      then (case body s of
              (r1, s1) \<Rightarrow>
                if r1 \<noteq> OK then Some (r1, s1)
                else (case cond s1 of
                        (r2, s2) \<Rightarrow>
                          if r2 \<noteq> OK then Some (r2, s2)
                          else (case condition ops s2 of
                                  (r3, test, s3) \<Rightarrow>
                                    if r3 \<noteq> OK \<or> test then Some (r3, s3)
                                    else DoUntil_loop ops body cond r3 s3)))
      else Some (r, s))"

definition DoUntil ::
  "'o object_ops \<Rightarrow> 'o evaluation \<Rightarrow> 'o evaluation \<Rightarrow> 'o machine
     \<Rightarrow> (result \<times> 'o machine) option" where
  "DoUntil ops body cond s = DoUntil_loop ops body cond OK s"

text \<open>\<open>EVAL_BODY(WhileRepeat)\<close>.\<close>

partial_function (option) WhileRepeat_loop ::
  "'o object_ops \<Rightarrow> 'o evaluation \<Rightarrow> 'o evaluation \<Rightarrow> result \<Rightarrow> 'o machine
     \<Rightarrow> (result \<times> 'o machine) option" where
  "WhileRepeat_loop ops cond body r s =
     (if \<not> interrupted s \<and> r = OK
      then (case cond s of
              (r1, s1) \<Rightarrow>
                if r1 \<noteq> OK then Some (r1, s1)
                else (case condition ops s1 of
                        (r2, test, s2) \<Rightarrow>
                          if r2 \<noteq> OK \<or> \<not> test then Some (r2, s2)
                          else (case body s2 of
                                  (r3, s3) \<Rightarrow> WhileRepeat_loop ops cond body r3 s3)))
      else Some (r, s))"

definition WhileRepeat ::
  "'o object_ops \<Rightarrow> 'o evaluation \<Rightarrow> 'o evaluation \<Rightarrow> 'o machine
     \<Rightarrow> (result \<times> 'o machine) option" where
  "WhileRepeat ops cond body s = WhileRepeat_loop ops cond body OK s"

text \<open>
  \<open>loop::counted\<close>, the integer loop; \<open>last_c\<close> is the source's \<open>last\<close>. It ends with
  a \<open>return\<close> of the function (\<open>Return\<close>: also the \<open>return r\<close> after the loop, taken
  when \<open>astep\<close> is null), or it hands over to the algebraic loop with the step, the
  start and the finish as objects (\<open>Switch\<close>).
\<close>

datatype 'o integer_exit =
  Return result "'o machine"
| Switch 'o 'o 'o "'o machine"

partial_function (option) integer_loop ::
  "'o object_ops \<Rightarrow> 'o evaluation \<Rightarrow> bool \<Rightarrow> bool \<Rightarrow> ularge \<Rightarrow> ularge \<Rightarrow> ularge \<Rightarrow> result
     \<Rightarrow> 'o machine \<Rightarrow> 'o integer_exit option" where
  "integer_loop ops body stepping named last_c incr cnt r s =
     (if \<not> interrupted s \<and> r = OK
      then (let s0 = (if named then rt_local 0 (integer_make ops cnt) s else s)
            in case body s0 of
                 (r1, s1) \<Rightarrow>
                   if r1 \<noteq> OK then Some (Return r1 s1)
                   else if stepping
                   then (case rt_pop s1 of
                           (None, s2) \<Rightarrow> Some (Return ERROR s2)
                         | (Some step, s2) \<Rightarrow>
                             (case integer_value ops step of
                                Some istep \<Rightarrow>
                                  if cnt + istep > last_c then Some (Return r1 s2)
                                  else integer_loop ops body stepping named last_c istep
                                         (cnt + istep) r1 s2
                              | None \<Rightarrow>
                                  if is_real ops step
                                  then Some (Switch step (integer_make ops cnt)
                                               (integer_make ops last_c) s2)
                                  else Some (Return ERROR (rt_type_error s2))))
                   else if cnt + incr > last_c then Some (Return r1 s1)
                   else integer_loop ops body stepping named last_c incr (cnt + incr) r1 s1)
      else Some (Return r s))"

text \<open>
  The algebraic loop of \<open>loop::counted\<close>. \<open>algebraic_body\<close> is one round up to the
  increment: it leaves the function (\<open>Leave\<close>) or goes on to the increment with the
  status, the step and the state (\<open>Go_on\<close>).
\<close>

datatype 'o body_exit =
  Leave result "'o machine"
| Go_on result 'o "'o machine"

definition algebraic_body ::
  "'o evaluation \<Rightarrow> bool \<Rightarrow> bool \<Rightarrow> bool \<Rightarrow> 'o \<Rightarrow> 'o \<Rightarrow> result \<Rightarrow> 'o machine \<Rightarrow> 'o body_exit" where
  "algebraic_body body stepping named skip step cnt r s =
     (if skip then Go_on r step s
      else (let s0 = (if named then rt_local 0 cnt s else s)
            in case body s0 of
                 (r1, s1) \<Rightarrow>
                   if r1 \<noteq> OK then Leave r1 s1
                   else if stepping
                   then (case rt_pop s1 of
                           (None, s2) \<Rightarrow> Leave ERROR s2
                         | (Some step', s2) \<Rightarrow> Go_on r1 step' s2)
                   else Go_on r1 step s1))"

partial_function (option) algebraic_loop ::
  "'o object_ops \<Rightarrow> 'o evaluation \<Rightarrow> bool \<Rightarrow> bool \<Rightarrow> 'o \<Rightarrow> 'o \<Rightarrow> bool \<Rightarrow> 'o \<Rightarrow> 'o \<Rightarrow> result
     \<Rightarrow> 'o machine \<Rightarrow> (result \<times> 'o machine) option" where
  "algebraic_loop ops body stepping named zero last_c skip step cnt r s =
     (if \<not> interrupted s \<and> r = OK
      then (case algebraic_body body stepping named skip step cnt r s of
              Leave r1 s1 \<Rightarrow> Some (r1, s1)
            | Go_on r1 step1 s1 \<Rightarrow>
                (let cnt1 = alg_add ops cnt step1;
                     countdown = (stepping \<and> as_truth ops (alg_less ops step1 zero) = 1);
                     test = (if countdown then alg_less ops cnt1 last_c
                             else alg_greater ops cnt1 last_c)
                 in if as_truth ops test \<noteq> 0 then Some (r1, s1)
                    else algebraic_loop ops body stepping named zero last_c False step1 cnt1 r1 s1))
      else Some (r, s))"

text \<open>
  \<open>loop::counted(body, stepping, named)\<close>: \<open>rt.stack(0)\<close> is the finish and
  \<open>rt.stack(1)\<close> the start.
\<close>

definition counted ::
  "'o object_ops \<Rightarrow> 'o evaluation \<Rightarrow> bool \<Rightarrow> bool \<Rightarrow> 'o machine
     \<Rightarrow> (result \<times> 'o machine) option" where
  "counted ops body stepping named s =
     (case stack s of
        finish # start # rest \<Rightarrow>
          (let s = s \<lparr> stack := rest \<rparr> in
           case (integer_value ops start, integer_value ops finish) of
             (Some cnt, Some last_c) \<Rightarrow>
               (case integer_loop ops body stepping named last_c 1 cnt OK s of
                  None \<Rightarrow> None
                | Some (Return r s') \<Rightarrow> Some (r, s')
                | Some (Switch stp sta fin s') \<Rightarrow>
                    algebraic_loop ops body stepping named (integer_make ops 0) fin True stp sta
                      OK s')
           | _ \<Rightarrow>
               if is_real ops start \<and> is_real ops finish
               then algebraic_loop ops body stepping named (integer_make ops 0) finish False
                      (integer_make ops 1) start OK s
               else Some (ERROR, rt_type_error s))
      | _ \<Rightarrow> Some (ERROR, s))"

text \<open>\<open>EVAL_BODY(StartNext)\<close> and \<open>EVAL_BODY(StartStep)\<close>.\<close>

definition StartNext ::
  "'o object_ops \<Rightarrow> 'o evaluation \<Rightarrow> 'o machine \<Rightarrow> (result \<times> 'o machine) option" where
  "StartNext ops body s = counted ops body False False s"

definition StartStep ::
  "'o object_ops \<Rightarrow> 'o evaluation \<Rightarrow> 'o machine \<Rightarrow> (result \<times> 'o machine) option" where
  "StartStep ops body s = counted ops body True False s"

text \<open>
  \<open>FOR ... NEXT\<close> and \<open>FOR ... STEP\<close> set up one local slot and call \<open>loop::counted\<close>
  with \<open>named = true\<close>.
\<close>

subsection \<open>An instance of the object operations\<close>

text \<open>
  Modelled from the spec: integer objects, for running the loops on concrete stacks.
  An object is an integer; the non-negative ones carry the tag \<open>integer\<close>, the negative
  ones \<open>neg_integer\<close>, all are real; arithmetic and comparison are exact; a comparison
  yields 1 or 0, and an integer is true when it is not 0.
\<close>

definition int_ops :: "int object_ops" where
  "int_ops =
     \<lparr> integer_value = (\<lambda>i. if 0 \<le> i then Some (word_of_int i) else None),
       is_real = (\<lambda>i. True),
       integer_make = (\<lambda>w. uint w),
       alg_add = (\<lambda>a b. a + b),
       alg_less = (\<lambda>a b. if a < b then 1 else 0),
       alg_greater = (\<lambda>a b. if a > b then 1 else 0),
       as_truth = (\<lambda>i. if i = 0 then 0 else 1) \<rparr>"

text \<open>Modelled from the spec: the body \<open>DUP 1 +\<close> on a stack of integers (on an empty
  stack \<open>DUP\<close> fails).\<close>

definition dup_inc :: "int evaluation" where
  "dup_inc s = (case stack s of [] \<Rightarrow> (ERROR, s) | x # xs \<Rightarrow> (OK, s \<lparr> stack := (x + 1) # x # xs \<rparr>))"

text \<open>Modelled from the spec: a program that pushes one object, here a step or a
  truth value.\<close>

definition push_value :: "'o \<Rightarrow> 'o evaluation" where
  "push_value v s = (OK, s \<lparr> stack := v # stack s \<rparr>)"

text \<open>The state that one evaluation of a body leaves; \<open>after_body body ^^ n\<close> is the
  state after \<open>n\<close> evaluations in a row.\<close>

definition after_body :: "'o evaluation \<Rightarrow> 'o machine \<Rightarrow> 'o machine" where
  "after_body body s = snd (body s)"




subsection \<open>Rounds of a loop\<close>

text \<open>
  Every loop of loops.cc is \<open>while (!interrupted() && r == OK) { ... }\<close>. A round is
  one pass through the braces that starts with the flag clear and reaches the closing
  brace with \<open>r == OK\<close>, so that the head of the loop is tested again; it yields the
  variables for that test, or \<open>None\<close> when the round does not start or leaves the loop.
  \<open>rounds f n x\<close> is what \<open>n\<close> rounds in a row make of \<open>x\<close>. These functions say
  what a run of a loop is; the loops themselves are the functions above.
\<close>

fun rounds :: "('x \<Rightarrow> 'x option) \<Rightarrow> nat \<Rightarrow> 'x \<Rightarrow> 'x option" where
  "rounds f 0 x = Some x"
| "rounds f (Suc n) x = (case f x of None \<Rightarrow> None | Some y \<Rightarrow> rounds f n y)"

text \<open>A round of \<open>DO ... UNTIL\<close>: the body, the condition, and a test that is false.\<close>

definition DoUntil_round ::
  "'o object_ops \<Rightarrow> 'o evaluation \<Rightarrow> 'o evaluation \<Rightarrow> 'o machine \<Rightarrow> 'o machine option" where
  "DoUntil_round ops body cond s =
     (if interrupted s then None
      else (case body s of
              (r1, s1) \<Rightarrow>
                if r1 \<noteq> OK then None
                else (case cond s1 of
                        (r2, s2) \<Rightarrow>
                          if r2 \<noteq> OK then None
                          else (case condition ops s2 of
                                  (r3, test, s3) \<Rightarrow>
                                    if r3 \<noteq> OK \<or> test then None else Some s3))))"

text \<open>A round of \<open>WHILE ... REPEAT\<close>: the condition, a test that is true, and the body.\<close>

definition WhileRepeat_round ::
  "'o object_ops \<Rightarrow> 'o evaluation \<Rightarrow> 'o evaluation \<Rightarrow> 'o machine \<Rightarrow> 'o machine option" where
  "WhileRepeat_round ops cond body s =
     (if interrupted s then None
      else (case cond s of
              (r1, s1) \<Rightarrow>
                if r1 \<noteq> OK then None
                else (case condition ops s1 of
                        (r2, test, s2) \<Rightarrow>
                          if r2 \<noteq> OK \<or> \<not> test then None
                          else (case body s2 of
                                  (r3, s3) \<Rightarrow> if r3 \<noteq> OK then None else Some s3))))"

text \<open>A round of the integer loop on the variables \<open>incr\<close>, \<open>cnt\<close> and the state: the
  body, the step when there is one, and a counter that is not above \<open>last\<close>.\<close>

definition integer_round ::
  "'o object_ops \<Rightarrow> 'o evaluation \<Rightarrow> bool \<Rightarrow> bool \<Rightarrow> ularge \<Rightarrow> ularge \<times> ularge \<times> 'o machine
     \<Rightarrow> (ularge \<times> ularge \<times> 'o machine) option" where
  "integer_round ops body stepping named last_c x =
     (case x of
        (incr, cnt, s) \<Rightarrow>
          if interrupted s then None
          else (let s0 = (if named then rt_local 0 (integer_make ops cnt) s else s)
                in case body s0 of
                     (r1, s1) \<Rightarrow>
                       if r1 \<noteq> OK then None
                       else if stepping
                       then (case rt_pop s1 of
                               (None, s2) \<Rightarrow> None
                             | (Some step, s2) \<Rightarrow>
                                 (case integer_value ops step of
                                    Some istep \<Rightarrow>
                                      if cnt + istep > last_c then None
                                      else Some (istep, cnt + istep, s2)
                                  | None \<Rightarrow> None))
                       else if cnt + incr > last_c then None
                       else Some (incr, cnt + incr, s1)))"

text \<open>A round of the algebraic loop on the variables \<open>skip\<close>, \<open>step\<close>, \<open>cnt\<close> and the
  state.\<close>

definition algebraic_round ::
  "'o object_ops \<Rightarrow> 'o evaluation \<Rightarrow> bool \<Rightarrow> bool \<Rightarrow> 'o \<Rightarrow> 'o \<Rightarrow> bool \<times> 'o \<times> 'o \<times> 'o machine
     \<Rightarrow> (bool \<times> 'o \<times> 'o \<times> 'o machine) option" where
  "algebraic_round ops body stepping named zero last_c x =
     (case x of
        (skip, step, cnt, s) \<Rightarrow>
          if interrupted s then None
          else (case algebraic_body body stepping named skip step cnt OK s of
                  Leave r1 s1 \<Rightarrow> None
                | Go_on r1 step1 s1 \<Rightarrow>
                    (let cnt1 = alg_add ops cnt step1;
                         countdown = (stepping \<and> as_truth ops (alg_less ops step1 zero) = 1);
                         test = (if countdown then alg_less ops cnt1 last_c
                                 else alg_greater ops cnt1 last_c)
                     in if as_truth ops test \<noteq> 0 then None
                        else Some (False, step1, cnt1, s1))))"

text \<open>Modelled from the spec: the body \<open>DUP 1 +\<close> during which the host requests an
  abort, namely when the new top of the stack is \<open>k\<close>.\<close>

definition dup_inc_until :: "int \<Rightarrow> int evaluation" where
  "dup_inc_until k s =
     (case stack s of
        [] \<Rightarrow> (ERROR, s)
      | x # xs \<Rightarrow> (OK, s \<lparr> stack := (x + 1) # x # xs,
                              interrupt := (interrupt s \<or> x + 1 = k) \<rparr>))"

text \<open>Modelled from the spec: a program made of \<open>body\<close> and of an object that pushes
  \<open>v\<close>; a program stops at the first evaluation that fails.\<close>

definition then_push :: "'o evaluation \<Rightarrow> 'o \<Rightarrow> 'o evaluation" where
  "then_push body v s = (case body s of (r, s') \<Rightarrow> if r \<noteq> OK then (r, s') else push_value v s')"

section \<open>Evaluating the model\<close>

text \<open>
  The loops that count down are defined by pattern matching on \<open>Suc\<close>; these
  equations state them for any counter, so that the simplifier can run them on numerals.
  With the weak congruence rules for \<open>let\<close> and \<open>case\<close> the simplifier evaluates a bound
  value before it enters the body, as the program does.
\<close>

lemma add_loop_unfold:
  "add_loop xb xs yb ys kshift mod3 hmul lmul n carry rb =
     (if n = 0 then (rb, carry)
      else (let ko = n - 1; xk = add_kigit xb xs yb ys kshift mod3 hmul lmul ko carry
            in add_loop xb xs yb ys kshift mod3 hmul lmul ko (xk div 1000) (rb[ko := xk mod 1000])))"
  by (cases n) simp_all

lemma add_shift_unfold:
  "add_shift hmul lmul carry n rb =
     (if n = 0 then rb
      else (let ko = n - 1; above = (if ko \<noteq> 0 then rb ! (ko - 1) else carry)
            in add_shift hmul lmul carry ko (rb[ko := rb ! ko div hmul + (above mod hmul) * lmul])))"
  by (cases n) simp_all

lemma strip_trailing_unfold:
  "strip_trailing rb n =
     (if n = 0 then 0 else if rb ! (n - 1) = 0 then strip_trailing rb (n - 1) else n)"
  by (cases n) simp_all

lemma sub_loop_unfold:
  "sub_loop xb xs yb ys kshift mod3 hmul lmul n carry rb =
     (if n = 0 then (rb, carry)
      else (let ko = n - 1;
                (xk, yk) = sub_kigit xb xs yb ys kshift mod3 hmul lmul ko carry;
                carry = (if xk < yk then 1 else 0);
                xk = (if carry \<noteq> 0 then xk + 1000 else xk);
                xk = kint_sub xk yk
            in sub_loop xb xs yb ys kshift mod3 hmul lmul ko carry (rb[ko := xk])))"
  by (cases n) simp_all

lemma complement_loop_unfold:
  "complement_loop rv n rb =
     (if n = 0 then rb else complement_loop 999 (n - 1) (rb[n - 1 := kint_sub rv (rb ! (n - 1))]))"
  by (cases n) simp_all

lemma strip_leading_unfold:
  "strip_leading xe rb n =
     (if n = 0 then (xe, rb, 0)
      else if kigit rb 0 = 0 then strip_leading (xe - 3) (tl rb) (n - 1) else (xe, rb, n))"
  by (cases n) simp_all

lemmas eval_decimal = Let_def nkigits_def kigit_def allocate_def sizeof_kint_def
  make_decimal_def negtype_def strip_trailing_unfold

lemmas eval_add = decimal_add_def add_kigit_def add_loop_unfold add_shift_unfold
  carry_digits.simps

lemmas eval_sub = decimal_sub_def sub_kigit_def kint_sub_def sub_loop_unfold
  complement_loop_unfold strip_leading_unfold digits_loop.simps decimal_neg_def

lemmas eval_value = value_of_def magnitude_def pow10_def nkigits_def

lemmas eval_parse = decimal_parse_def parse_finish_def scan_loop.simps scan_char_def peek_def
  is_digit_def digit_value_def allocate_kint_def allocate_def sizeof_kint_def make_decimal_def
  skip_digits.simps at_separator_def utf8_next_def utf8_size_def atoi_def atoi_digits.simps
  Let_def

section \<open>Comparison\<close>

lemma compare_kigits_same: "compare_kigits xb xb s i = 0"
proof (induction "s - i" arbitrary: i)
  case 0
  then show ?case by (subst compare_kigits.simps) simp
next
  case (Suc n)
  then have "compare_kigits xb xb s (i + 1) = 0" by simp
  then show ?case by (subst compare_kigits.simps) simp
qed

text \<open>Comparing an object with itself gives 0 without the pointer test.\<close>

lemma decimal_compare_same: "decimal_compare (Some x) (Some x) = 0"
  by (simp add: decimal_compare_def Let_def compare_kigits_same)

text \<open>
  Claim C10. A positive zero and a negative zero (kigit count 0 under either tag, with
  any stored exponents) both are zero for \<open>is_zero\<close> and both stand for the number 0;
  \<open>fpclass\<close> tells them apart; \<open>compare\<close> returns 1 for (+0, -0), so that -0 is
  less than +0 and \<open>operator==\<close> reports them unequal.
\<close>

theorem compare_zero_encodings:
  "is_zero \<lparr> type_of = ID_decimal, exponent = e1, kigits = [] \<rparr>
   \<and> is_zero \<lparr> type_of = ID_neg_decimal, exponent = e2, kigits = [] \<rparr>
   \<and> value_of \<lparr> type_of = ID_decimal, exponent = e1, kigits = [] \<rparr> = 0
   \<and> value_of \<lparr> type_of = ID_neg_decimal, exponent = e2, kigits = [] \<rparr> = 0
   \<and> fpclass \<lparr> type_of = ID_decimal, exponent = e1, kigits = [] \<rparr> = positiveZero
   \<and> fpclass \<lparr> type_of = ID_neg_decimal, exponent = e2, kigits = [] \<rparr> = negativeZero
   \<and> decimal_compare (Some \<lparr> type_of = ID_decimal, exponent = e1, kigits = [] \<rparr>)
                       (Some \<lparr> type_of = ID_neg_decimal, exponent = e2, kigits = [] \<rparr>) = 1
   \<and> decimal_less (Some \<lparr> type_of = ID_neg_decimal, exponent = e2, kigits = [] \<rparr>)
                    (Some \<lparr> type_of = ID_decimal, exponent = e1, kigits = [] \<rparr>)
   \<and> \<not> decimal_eq (Some \<lparr> type_of = ID_decimal, exponent = e1, kigits = [] \<rparr>)
                    (Some \<lparr> type_of = ID_neg_decimal, exponent = e2, kigits = [] \<rparr>)"
  by (simp add: is_zero_def nkigits_def value_of_def magnitude_def fpclass_def
        decimal_compare_def decimal_less_def decimal_eq_def)

text \<open>
  Claim C4 asks that \<open>compare\<close> agree with the numerical order, in particular when one
  operand is zero. The code compares the exponents before it looks at the kigit counts:
  the zero that \<open>rt.make<decimal>(0)\<close>, the parser on \<open>0\<close> and \<open>sub\<close> build has exponent
  0, and against 0.05 (exponent -1) \<open>compare\<close> returns 1, so that \<open>0 < 0.05\<close> is false
  for \<open>operator<\<close>.
\<close>

theorem compare_zero_against_small:
  "value_of \<lparr> type_of = ID_decimal, exponent = 0, kigits = [] \<rparr> = 0
   \<and> value_of \<lparr> type_of = ID_decimal, exponent = - 1, kigits = [500] \<rparr> = 1 / 20
   \<and> decimal_compare (Some \<lparr> type_of = ID_decimal, exponent = 0, kigits = [] \<rparr>)
                       (Some \<lparr> type_of = ID_decimal, exponent = - 1, kigits = [500] \<rparr>) = 1
   \<and> \<not> decimal_less (Some \<lparr> type_of = ID_decimal, exponent = 0, kigits = [] \<rparr>)
                      (Some \<lparr> type_of = ID_decimal, exponent = - 1, kigits = [500] \<rparr>)"
  by (simp add: eval_value decimal_compare_def decimal_less_def)

section \<open>Addition and subtraction on concrete operands\<close>

text \<open>
  Claim C1 asks for the exact sum. When the sum carries out of the top kigit, the code
  shifts the mantissa right inside the \<open>rs\<close> kigits it allocated and the last digit
  falls off, whatever the precision: with 24 digits of precision, 0.999 + 0.999 is
  1.99 and not 1.998.
\<close>

theorem add_carry_drops_digit:
  "decimal_add \<lparr> Precision = 24, TooManyDigitsErrors = False, ExponentSeparator = ''e'' \<rparr>
       \<lparr> scratch_room = 1000, make_room = True \<rparr>
       \<lparr> type_of = ID_decimal, exponent = 0, kigits = [999] \<rparr>
       \<lparr> type_of = ID_decimal, exponent = 0, kigits = [999] \<rparr>
     = Some \<lparr> type_of = ID_decimal, exponent = 1, kigits = [199] \<rparr>
   \<and> value_of \<lparr> type_of = ID_decimal, exponent = 0, kigits = [999] \<rparr> = 999 / 1000
   \<and> value_of \<lparr> type_of = ID_decimal, exponent = 1, kigits = [199] \<rparr> = 199 / 100"
  by (simp add: eval_decimal eval_add eval_value
        cong: let_weak_cong old.prod.case_cong_weak)

text \<open>
  Claim C2 asks for the correct value and exponent of a difference. Two runs of the code
  at 24 digits of precision: 1 - 0.123 gives 0.88 (the digits of \<open>y\<close> that the
  alignment shifts into the kigit after its last one are never subtracted; \<open>add\<close>
  handles that kigit), and 0.1005 - 0.2005 gives a zero with exponent -2 (the
  complement of a final kigit 0 is 1000, which the digit shift then wipes out).
\<close>

theorem sub_loses_digits:
  "decimal_sub \<lparr> Precision = 24, TooManyDigitsErrors = False, ExponentSeparator = ''e'' \<rparr>
       \<lparr> scratch_room = 1000, make_room = True \<rparr>
       \<lparr> type_of = ID_decimal, exponent = 1, kigits = [100] \<rparr>
       \<lparr> type_of = ID_decimal, exponent = 0, kigits = [123] \<rparr>
     = Some \<lparr> type_of = ID_decimal, exponent = 0, kigits = [880] \<rparr>
   \<and> value_of \<lparr> type_of = ID_decimal, exponent = 1, kigits = [100] \<rparr> = 1
   \<and> value_of \<lparr> type_of = ID_decimal, exponent = 0, kigits = [123] \<rparr> = 123 / 1000
   \<and> value_of \<lparr> type_of = ID_decimal, exponent = 0, kigits = [880] \<rparr> = 880 / 1000
   \<and> decimal_sub \<lparr> Precision = 24, TooManyDigitsErrors = False, ExponentSeparator = ''e'' \<rparr>
       \<lparr> scratch_room = 1000, make_room = True \<rparr>
       \<lparr> type_of = ID_decimal, exponent = 0, kigits = [100, 500] \<rparr>
       \<lparr> type_of = ID_decimal, exponent = 0, kigits = [200, 500] \<rparr>
     = Some \<lparr> type_of = ID_neg_decimal, exponent = - 2, kigits = [] \<rparr>
   \<and> value_of \<lparr> type_of = ID_decimal, exponent = 0, kigits = [100, 500] \<rparr> = 1005 / 10000
   \<and> value_of \<lparr> type_of = ID_decimal, exponent = 0, kigits = [200, 500] \<rparr> = 2005 / 10000
   \<and> value_of \<lparr> type_of = ID_neg_decimal, exponent = - 2, kigits = [] \<rparr> = 0"
  by (simp add: eval_decimal eval_sub eval_value
        cong: let_weak_cong old.prod.case_cong_weak)

section \<open>The parser\<close>

text \<open>
  Claim C5 asks that every decimal the parser and the arithmetic produce be normalized.
  The parser pads the last group of digits to a kigit and stores every kigit it
  scanned: \<open>1.100\<close> becomes the kigits 110, 0, with a trailing zero kigit that \<open>add\<close>,
  \<open>sub\<close> and \<open>mul\<close> would strip, and \<open>compare\<close> then finds it different from the
  decimal parsed from \<open>1.1\<close>. \<open>add\<close> itself returns a leading kigit 0 for 0 + 0.000001.
\<close>

theorem parse_keeps_trailing_zero_kigit:
  "decimal_parse \<lparr> Precision = 24, TooManyDigitsErrors = False, ExponentSeparator = ''e'' \<rparr>
       \<lparr> scratch_room = 1000, make_room = True \<rparr>
       \<lparr> source = ''1.100'', length_p = 5, precedence = 0, end_p = 0, out = None \<rparr>
     = (OK, \<lparr> source = ''1.100'', length_p = 5, precedence = 0, end_p = 5,
              out = Some \<lparr> type_of = ID_decimal, exponent = 1, kigits = [110, 0] \<rparr> \<rparr>)
   \<and> \<not> normalized \<lparr> type_of = ID_decimal, exponent = 1, kigits = [110, 0] \<rparr>
   \<and> decimal_parse \<lparr> Precision = 24, TooManyDigitsErrors = False, ExponentSeparator = ''e'' \<rparr>
       \<lparr> scratch_room = 1000, make_room = True \<rparr>
       \<lparr> source = ''1.1'', length_p = 3, precedence = 0, end_p = 0, out = None \<rparr>
     = (OK, \<lparr> source = ''1.1'', length_p = 3, precedence = 0, end_p = 3,
              out = Some \<lparr> type_of = ID_decimal, exponent = 1, kigits = [110] \<rparr> \<rparr>)
   \<and> \<not> decimal_eq (Some \<lparr> type_of = ID_decimal, exponent = 1, kigits = [110, 0] \<rparr>)
                    (Some \<lparr> type_of = ID_decimal, exponent = 1, kigits = [110] \<rparr>)
   \<and> decimal_add \<lparr> Precision = 24, TooManyDigitsErrors = False, ExponentSeparator = ''e'' \<rparr>
       \<lparr> scratch_room = 1000, make_room = True \<rparr>
       \<lparr> type_of = ID_decimal, exponent = 0, kigits = [] \<rparr>
       \<lparr> type_of = ID_decimal, exponent = - 5, kigits = [100] \<rparr>
     = Some \<lparr> type_of = ID_decimal, exponent = 0, kigits = [0, 1] \<rparr>
   \<and> \<not> normalized \<lparr> type_of = ID_decimal, exponent = 0, kigits = [0, 1] \<rparr>"
proof -
  have long: "decimal_parse \<lparr> Precision = 24, TooManyDigitsErrors = False, ExponentSeparator = ''e'' \<rparr>
       \<lparr> scratch_room = 1000, make_room = True \<rparr>
       \<lparr> source = ''1.100'', length_p = 5, precedence = 0, end_p = 0, out = None \<rparr>
     = (OK, \<lparr> source = ''1.100'', length_p = 5, precedence = 0, end_p = 5,
              out = Some \<lparr> type_of = ID_decimal, exponent = 1, kigits = [110, 0] \<rparr> \<rparr>)"
    by (simp add: eval_parse cong: let_weak_cong old.prod.case_cong_weak option.case_cong_weak)
  have short: "decimal_parse \<lparr> Precision = 24, TooManyDigitsErrors = False, ExponentSeparator = ''e'' \<rparr>
       \<lparr> scratch_room = 1000, make_room = True \<rparr>
       \<lparr> source = ''1.1'', length_p = 3, precedence = 0, end_p = 0, out = None \<rparr>
     = (OK, \<lparr> source = ''1.1'', length_p = 3, precedence = 0, end_p = 3,
              out = Some \<lparr> type_of = ID_decimal, exponent = 1, kigits = [110] \<rparr> \<rparr>)"
    by (simp add: eval_parse cong: let_weak_cong old.prod.case_cong_weak option.case_cong_weak)
  have differ: "\<not> decimal_eq (Some \<lparr> type_of = ID_decimal, exponent = 1, kigits = [110, 0] \<rparr>)
                    (Some \<lparr> type_of = ID_decimal, exponent = 1, kigits = [110] \<rparr>)"
    by (simp add: decimal_eq_def decimal_compare_def nkigits_def kigit_def compare_kigits.simps)
  have sum: "decimal_add \<lparr> Precision = 24, TooManyDigitsErrors = False, ExponentSeparator = ''e'' \<rparr>
       \<lparr> scratch_room = 1000, make_room = True \<rparr>
       \<lparr> type_of = ID_decimal, exponent = 0, kigits = [] \<rparr>
       \<lparr> type_of = ID_decimal, exponent = - 5, kigits = [100] \<rparr>
     = Some \<lparr> type_of = ID_decimal, exponent = 0, kigits = [0, 1] \<rparr>"
    by (simp add: eval_decimal eval_add cong: let_weak_cong old.prod.case_cong_weak)
  show ?thesis
    by (simp only: long short sum) (simp add: differ normalized_def)
qed









section \<open>The loops\<close>


























lemmas eval_loops = StartNext_def StartStep_def counted_def DoUntil_def WhileRepeat_def
  integer_loop.simps algebraic_loop.simps DoUntil_loop.simps WhileRepeat_loop.simps
  algebraic_body_def condition_def rt_pop_def rt_local_def rt_type_error_def interrupted_def
  int_ops_def dup_inc_def push_value_def after_body_def



lemma rounds_same:
  assumes "\<And>x y. f x = Some y \<Longrightarrow> L x = L y" and "rounds f n x = Some y"
  shows "L x = L y"
  using assms(2)
proof (induction n arbitrary: x)
  case 0
  then show ?case by simp
next
  case (Suc n)
  then obtain z where z: "f x = Some z" and r: "rounds f n z = Some y"
    by (auto split: option.splits)
  from assms(1) [OF z] Suc.IH [OF r] show ?case by simp
qed

lemma DoUntil_round_step:
  "DoUntil_round ops body cond s = Some t \<Longrightarrow>
     DoUntil_loop ops body cond OK s = DoUntil_loop ops body cond OK t"
  by (subst DoUntil_loop.simps)
     (auto simp: DoUntil_round_def split: if_splits prod.splits)

lemma WhileRepeat_round_step:
  "WhileRepeat_round ops cond body s = Some t \<Longrightarrow>
     WhileRepeat_loop ops cond body OK s = WhileRepeat_loop ops cond body OK t"
  by (subst WhileRepeat_loop.simps)
     (auto simp: WhileRepeat_round_def split: if_splits prod.splits)

lemma integer_round_step:
  "integer_round ops body stepping named last_c (incr, cnt, s) = Some (incr', cnt', t) \<Longrightarrow>
     integer_loop ops body stepping named last_c incr cnt OK s =
     integer_loop ops body stepping named last_c incr' cnt' OK t"
  by (subst integer_loop.simps)
     (auto simp: integer_round_def Let_def split: if_splits prod.splits option.splits)

lemma algebraic_round_step:
  "algebraic_round ops body stepping named zero last_c (skip, step, cnt, s)
       = Some (skip', step', cnt', t) \<Longrightarrow>
     algebraic_loop ops body stepping named zero last_c skip step cnt OK s =
     algebraic_loop ops body stepping named zero last_c skip' step' cnt' OK t"
  by (subst algebraic_loop.simps)
     (auto simp: algebraic_round_def algebraic_body_def Let_def
           split: if_splits prod.splits option.splits body_exit.splits)

lemma integer_rounds_loop:
  assumes "rounds (integer_round ops body stepping named last_c) n (incr, cnt, s) = Some (i, c, t)"
  shows "integer_loop ops body stepping named last_c incr cnt OK s =
         integer_loop ops body stepping named last_c i c OK t"
proof -
  let ?L = "\<lambda>x. case x of (i, c, s) \<Rightarrow> integer_loop ops body stepping named last_c i c OK s"
  have "?L x = ?L y" if "integer_round ops body stepping named last_c x = Some y" for x y
    using that integer_round_step [of ops body stepping named last_c]
    by (cases x, cases y) auto
  from rounds_same [of "integer_round ops body stepping named last_c" ?L, OF this assms]
  show ?thesis by simp
qed

lemma algebraic_rounds_loop:
  assumes "rounds (algebraic_round ops body stepping named zero last_c) n (skip, step, cnt, s)
             = Some (sk, st, ac, t)"
  shows "algebraic_loop ops body stepping named zero last_c skip step cnt OK s =
         algebraic_loop ops body stepping named zero last_c sk st ac OK t"
proof -
  let ?L = "\<lambda>x. case x of (sk, st, ac, s) \<Rightarrow>
              algebraic_loop ops body stepping named zero last_c sk st ac OK s"
  have "?L x = ?L y" if "algebraic_round ops body stepping named zero last_c x = Some y" for x y
    using that algebraic_round_step [of ops body stepping named zero last_c]
    by (cases x, cases y) auto
  from rounds_same [of "algebraic_round ops body stepping named zero last_c" ?L, OF this assms]
  show ?thesis by simp
qed

lemma loop_heads:
  assumes "interrupted t"
  shows "DoUntil_loop ops body cond r t = Some (r, t)"
    and "WhileRepeat_loop ops cond body r t = Some (r, t)"
    and "integer_loop ops body stepping named last_c incr cnt r t = Some (Return r t)"
    and "algebraic_loop ops body stepping named zero fin skip step acnt r t = Some (r, t)"
  using assms
  by (simp_all add: DoUntil_loop.simps [of ops body cond r t]
        WhileRepeat_loop.simps [of ops cond body r t]
        integer_loop.simps [of ops body stepping named last_c incr cnt r t]
        algebraic_loop.simps [of ops body stepping named zero fin skip step acnt r t])

text \<open>
  Claim C9, as the code has it. Every loop tests \<open>interrupted()\<close> at its head, before
  each round. First, a loop whose head finds the flag set returns the status it holds and
  the state as it is. Then, for every loop and every \<open>n\<close>: when \<open>n\<close> rounds have been
  made and the flag is set at the end of the last one, the loop returns \<open>OK\<close> and the
  state that the last round left, so it evaluates nothing more; this is stated for
  \<open>DO ... UNTIL\<close>, for \<open>WHILE ... REPEAT\<close>, for the counted loop on integers (with and
  without \<open>STEP\<close>, \<open>START\<close> and \<open>FOR\<close>), for the counted loop on other real numbers, and
  for the counted loop that a step which is no integer moved from the integer loop to the
  algebraic one. The status is \<open>OK\<close>: the loops raise no error of their own.
\<close>

theorem loops_stop_when_interrupted:
  "(interrupted t \<longrightarrow>
       DoUntil_loop ops body cond r t = Some (r, t)
     \<and> WhileRepeat_loop ops cond body r t = Some (r, t)
     \<and> integer_loop ops body stepping named last_c incr cnt r t = Some (Return r t)
     \<and> algebraic_loop ops body stepping named zero fin skip step acnt r t = Some (r, t))
   \<and> (rounds (DoUntil_round ops body cond) n s = Some t \<and> interrupted t
        \<longrightarrow> DoUntil ops body cond s = Some (OK, t))
   \<and> (rounds (WhileRepeat_round ops cond body) n s = Some t \<and> interrupted t
        \<longrightarrow> WhileRepeat ops cond body s = Some (OK, t))
   \<and> (stack s = finish # start # rest
        \<and> integer_value ops start = Some a \<and> integer_value ops finish = Some b
        \<and> rounds (integer_round ops body stepping named b) n (1, a, s \<lparr> stack := rest \<rparr>)
            = Some (i, c, t)
        \<and> interrupted t
        \<longrightarrow> counted ops body stepping named s = Some (OK, t))
   \<and> (stack s = finish # start # rest
        \<and> (integer_value ops start = None \<or> integer_value ops finish = None)
        \<and> is_real ops start \<and> is_real ops finish
        \<and> rounds (algebraic_round ops body stepping named (integer_make ops 0) finish) n
              (False, integer_make ops 1, start, s \<lparr> stack := rest \<rparr>)
            = Some (sk, st, ac, t)
        \<and> interrupted t
        \<longrightarrow> counted ops body stepping named s = Some (OK, t))
   \<and> (stack s = finish # start # rest
        \<and> integer_value ops start = Some a \<and> integer_value ops finish = Some b
        \<and> rounds (integer_round ops body True named b) n (1, a, s \<lparr> stack := rest \<rparr>)
            = Some (i, c, u)
        \<and> \<not> interrupted u
        \<and> body (if named then rt_local 0 (integer_make ops c) u else u) = (OK, u1)
        \<and> rt_pop u1 = (Some stp, u2)
        \<and> integer_value ops stp = None \<and> is_real ops stp
        \<and> rounds (algebraic_round ops body True named (integer_make ops 0) (integer_make ops b)) m
              (True, stp, integer_make ops c, u2)
            = Some (sk, st, ac, t)
        \<and> interrupted t
        \<longrightarrow> counted ops body True named s = Some (OK, t))"
proof (intro conjI impI)
  assume "interrupted t"
  then show "DoUntil_loop ops body cond r t = Some (r, t)"
    and "WhileRepeat_loop ops cond body r t = Some (r, t)"
    and "integer_loop ops body stepping named last_c incr cnt r t = Some (Return r t)"
    and "algebraic_loop ops body stepping named zero fin skip step acnt r t = Some (r, t)"
    by (rule loop_heads)+
next
  assume h: "rounds (DoUntil_round ops body cond) n s = Some t \<and> interrupted t"
  then have "DoUntil_loop ops body cond OK s = DoUntil_loop ops body cond OK t"
    by (intro rounds_same [of "DoUntil_round ops body cond" _ n s t] DoUntil_round_step) simp_all
  with h show "DoUntil ops body cond s = Some (OK, t)"
    by (simp add: DoUntil_def loop_heads)
next
  assume h: "rounds (WhileRepeat_round ops cond body) n s = Some t \<and> interrupted t"
  then have "WhileRepeat_loop ops cond body OK s = WhileRepeat_loop ops cond body OK t"
    by (intro rounds_same [of "WhileRepeat_round ops cond body" _ n s t] WhileRepeat_round_step)
       simp_all
  with h show "WhileRepeat ops cond body s = Some (OK, t)"
    by (simp add: WhileRepeat_def loop_heads)
next
  assume h: "stack s = finish # start # rest
        \<and> integer_value ops start = Some a \<and> integer_value ops finish = Some b
        \<and> rounds (integer_round ops body stepping named b) n (1, a, s \<lparr> stack := rest \<rparr>)
            = Some (i, c, t)
        \<and> interrupted t"
  then have "integer_loop ops body stepping named b 1 a OK (s \<lparr> stack := rest \<rparr>) =
             integer_loop ops body stepping named b i c OK t"
    by (intro integer_rounds_loop [of ops body stepping named b n]) simp
  with h show "counted ops body stepping named s = Some (OK, t)"
    by (simp add: counted_def loop_heads)
next
  assume h: "stack s = finish # start # rest
        \<and> (integer_value ops start = None \<or> integer_value ops finish = None)
        \<and> is_real ops start \<and> is_real ops finish
        \<and> rounds (algebraic_round ops body stepping named (integer_make ops 0) finish) n
              (False, integer_make ops 1, start, s \<lparr> stack := rest \<rparr>)
            = Some (sk, st, ac, t)
        \<and> interrupted t"
  then have "algebraic_loop ops body stepping named (integer_make ops 0) finish False
                 (integer_make ops 1) start OK (s \<lparr> stack := rest \<rparr>) =
             algebraic_loop ops body stepping named (integer_make ops 0) finish sk st ac OK t"
    by (intro algebraic_rounds_loop [of ops body stepping named _ _ n]) simp
  with h show "counted ops body stepping named s = Some (OK, t)"
    by (auto simp: counted_def Let_def loop_heads split: option.splits)
next
  assume h: "stack s = finish # start # rest
        \<and> integer_value ops start = Some a \<and> integer_value ops finish = Some b
        \<and> rounds (integer_round ops body True named b) n (1, a, s \<lparr> stack := rest \<rparr>)
            = Some (i, c, u)
        \<and> \<not> interrupted u
        \<and> body (if named then rt_local 0 (integer_make ops c) u else u) = (OK, u1)
        \<and> rt_pop u1 = (Some stp, u2)
        \<and> integer_value ops stp = None \<and> is_real ops stp
        \<and> rounds (algebraic_round ops body True named (integer_make ops 0) (integer_make ops b)) m
              (True, stp, integer_make ops c, u2)
            = Some (sk, st, ac, t)
        \<and> interrupted t"
  then have "integer_loop ops body True named b 1 a OK (s \<lparr> stack := rest \<rparr>) =
             integer_loop ops body True named b i c OK u"
    by (intro integer_rounds_loop [of ops body True named b n]) simp
  also have "\<dots> = Some (Switch stp (integer_make ops c) (integer_make ops b) u2)"
    using h by (subst integer_loop.simps) (simp add: Let_def)
  finally have first: "integer_loop ops body True named b 1 a OK (s \<lparr> stack := rest \<rparr>) =
      Some (Switch stp (integer_make ops c) (integer_make ops b) u2)" .
  from h have "algebraic_loop ops body True named (integer_make ops 0) (integer_make ops b) True
                 stp (integer_make ops c) OK u2 =
             algebraic_loop ops body True named (integer_make ops 0) (integer_make ops b)
                 sk st ac OK t"
    by (intro algebraic_rounds_loop [of ops body True named _ _ m]) simp
  with h first show "counted ops body True named s = Some (OK, t)"
    by (simp add: counted_def loop_heads)
qed

lemma rounds_unfold:
  "rounds f n x =
     (if n = 0 then Some x else case f x of None \<Rightarrow> None | Some y \<Rightarrow> rounds f (n - 1) y)"
  by (cases n) (simp_all split: option.splits)

lemmas eval_rounds = rounds_unfold DoUntil_round_def WhileRepeat_round_def integer_round_def
  algebraic_round_def dup_inc_until_def then_push_def

theorem loops_stop_when_interrupted_witness:
  "DoUntil int_ops dup_inc (push_value 0)
      \<lparr> stack = [1], locals_frame = [], last_error = None, interrupt = True \<rparr>
    = Some (OK, \<lparr> stack = [1], locals_frame = [], last_error = None, interrupt = True \<rparr>)
   \<and> DoUntil int_ops (dup_inc_until 3) (push_value 0)
      \<lparr> stack = [1], locals_frame = [], last_error = None, interrupt = False \<rparr>
    = Some (OK, \<lparr> stack = [3, 2, 1], locals_frame = [], last_error = None, interrupt = True \<rparr>)
   \<and> WhileRepeat int_ops (push_value 1) (dup_inc_until 3)
      \<lparr> stack = [1], locals_frame = [], last_error = None, interrupt = False \<rparr>
    = Some (OK, \<lparr> stack = [3, 2, 1], locals_frame = [], last_error = None, interrupt = True \<rparr>)
   \<and> counted int_ops (dup_inc_until 3) False False
      \<lparr> stack = [10, 1, 1], locals_frame = [], last_error = None, interrupt = False \<rparr>
    = Some (OK, \<lparr> stack = [3, 2, 1], locals_frame = [], last_error = None, interrupt = True \<rparr>)
   \<and> counted int_ops (then_push (dup_inc_until 3) 2) True False
      \<lparr> stack = [10, 1, 1], locals_frame = [], last_error = None, interrupt = False \<rparr>
    = Some (OK, \<lparr> stack = [3, 2, 1], locals_frame = [], last_error = None, interrupt = True \<rparr>)
   \<and> counted int_ops (dup_inc_until 3) False False
      \<lparr> stack = [2, - 1, 1], locals_frame = [], last_error = None, interrupt = False \<rparr>
    = Some (OK, \<lparr> stack = [3, 2, 1], locals_frame = [], last_error = None, interrupt = True \<rparr>)
   \<and> counted int_ops (then_push (dup_inc_until 4) (- 1)) True False
      \<lparr> stack = [1, 5, 1], locals_frame = [], last_error = None, interrupt = False \<rparr>
    = Some (OK, \<lparr> stack = [4, 3, 2, 1], locals_frame = [], last_error = None, interrupt = True \<rparr>)"
proof -
  let ?set = "\<lparr> stack = [1 :: int], locals_frame = [], last_error = None, interrupt = True \<rparr>"
  let ?s1 = "\<lparr> stack = [1 :: int], locals_frame = [], last_error = None, interrupt = False \<rparr>"
  let ?c = "\<lparr> stack = [10, 1, 1 :: int], locals_frame = [], last_error = None, interrupt = False \<rparr>"
  let ?d = "\<lparr> stack = [2, - 1, 1 :: int], locals_frame = [], last_error = None, interrupt = False \<rparr>"
  let ?e = "\<lparr> stack = [1, 5, 1 :: int], locals_frame = [], last_error = None, interrupt = False \<rparr>"
  let ?t = "\<lparr> stack = [3, 2, 1 :: int], locals_frame = [], last_error = None, interrupt = True \<rparr>"
  let ?t4 = "\<lparr> stack = [4, 3, 2, 1 :: int], locals_frame = [], last_error = None, interrupt = True \<rparr>"
  note stop = loops_stop_when_interrupted
  have head: "DoUntil int_ops dup_inc (push_value 0) ?set = Some (OK, ?set)"
    using stop [where t = ?set and ops = int_ops and body = dup_inc and cond = "push_value 0"
        and r = OK, THEN conjunct1]
    by (simp add: interrupted_def DoUntil_def)
  have do_until: "DoUntil int_ops (dup_inc_until 3) (push_value 0) ?s1 = Some (OK, ?t)"
    using stop [where t = ?t and s = ?s1 and n = 2 and ops = int_ops
        and body = "dup_inc_until 3" and cond = "push_value 0",
        THEN conjunct2, THEN conjunct1]
    by (simp add: eval_rounds eval_loops
          cong: let_weak_cong old.prod.case_cong_weak option.case_cong_weak list.case_cong_weak)
  have while_repeat: "WhileRepeat int_ops (push_value 1) (dup_inc_until 3) ?s1 = Some (OK, ?t)"
    using stop [where t = ?t and s = ?s1 and n = 2 and ops = int_ops
        and body = "dup_inc_until 3" and cond = "push_value 1",
        THEN conjunct2, THEN conjunct2, THEN conjunct1]
    by (simp add: eval_rounds eval_loops
          cong: let_weak_cong old.prod.case_cong_weak option.case_cong_weak list.case_cong_weak)
  have start_next: "counted int_ops (dup_inc_until 3) False False ?c = Some (OK, ?t)"
    using stop [where t = ?t and s = ?c and n = 2 and ops = int_ops
        and body = "dup_inc_until 3" and stepping = False and named = False
        and finish = 10 and start = 1 and rest = "[1]" and a = 1 and b = 10 and i = 1 and c = 3,
        THEN conjunct2, THEN conjunct2, THEN conjunct2, THEN conjunct1]
    by (simp add: eval_rounds eval_loops
          cong: let_weak_cong old.prod.case_cong_weak option.case_cong_weak list.case_cong_weak)
  have start_step: "counted int_ops (then_push (dup_inc_until 3) 2) True False ?c = Some (OK, ?t)"
    using stop [where t = ?t and s = ?c and n = 2 and ops = int_ops
        and body = "then_push (dup_inc_until 3) 2" and stepping = True and named = False
        and finish = 10 and start = 1 and rest = "[1]" and a = 1 and b = 10 and i = 2 and c = 5,
        THEN conjunct2, THEN conjunct2, THEN conjunct2, THEN conjunct1]
    by (simp add: eval_rounds eval_loops
          cong: let_weak_cong old.prod.case_cong_weak option.case_cong_weak list.case_cong_weak)
  have real_bounds: "counted int_ops (dup_inc_until 3) False False ?d = Some (OK, ?t)"
    using stop [where t = ?t and s = ?d and n = 2 and ops = int_ops
        and body = "dup_inc_until 3" and stepping = False and named = False
        and finish = 2 and start = "- 1" and rest = "[1]" and sk = False and st = 1 and ac = 1,
        THEN conjunct2, THEN conjunct2, THEN conjunct2, THEN conjunct2, THEN conjunct1]
    by (simp add: eval_rounds eval_loops
          cong: let_weak_cong old.prod.case_cong_weak option.case_cong_weak list.case_cong_weak)
  have handover: "counted int_ops (then_push (dup_inc_until 4) (- 1)) True False ?e = Some (OK, ?t4)"
    using stop [where t = ?t4 and s = ?e and n = 0 and m = 3 and ops = int_ops
        and body = "then_push (dup_inc_until 4) (- 1)" and named = False
        and finish = 1 and start = 5 and rest = "[1]" and a = 5 and b = 1 and i = 1 and c = 5
        and u = "?e \<lparr> stack := [1] \<rparr>" and ?u1.0 = "?e \<lparr> stack := [- 1, 2, 1] \<rparr>"
        and ?u2.0 = "?e \<lparr> stack := [2, 1] \<rparr>" and stp = "- 1"
        and sk = False and st = "- 1" and ac = 2,
        THEN conjunct2, THEN conjunct2, THEN conjunct2, THEN conjunct2, THEN conjunct2]
    by (simp add: eval_rounds eval_loops
          cong: let_weak_cong old.prod.case_cong_weak option.case_cong_weak list.case_cong_weak)
  from head do_until while_repeat start_next start_step real_bounds handover
  show ?thesis by simp
qed

text \<open>
  Claim C9 says that an interrupted loop returns an error status. A \<open>DO ... UNTIL\<close>
  loop entered with the flag set returns \<open>OK\<close>, with the error slot empty.
\<close>

theorem DoUntil_interrupted_returns_OK:
  "DoUntil int_ops dup_inc (push_value 0)
      \<lparr> stack = [1], locals_frame = [], last_error = None, interrupt = True \<rparr>
    = Some (OK, \<lparr> stack = [1], locals_frame = [], last_error = None, interrupt = True \<rparr>)
   \<and> DoUntil int_ops dup_inc (push_value 0)
      \<lparr> stack = [1], locals_frame = [], last_error = None, interrupt = True \<rparr>
    \<noteq> Some (ERROR, \<lparr> stack = [1], locals_frame = [], last_error = None, interrupt = True \<rparr>)"
  by (simp add: DoUntil_def DoUntil_loop.simps interrupted_def)

end
